theory Spec2Isabelle
  imports Main
begin

section \<open>Values, errors and reflected values\<close>

text \<open>
  A Go \<^verbatim>\<open>error\<close> value is kept as its dynamic type (what
  \<^verbatim>\<open>reflect.TypeOf(err).String()\<close> prints) and its message.
\<close>

datatype gerror = GError (etype: string) (emsg: string)

text \<open>
  The values an \<^verbatim>\<open>interface{}\<close> holds in this file: task arguments, task results and
  the error that \<^verbatim>\<open>finalize\<close> stores in the first argument of an error callback.
\<close>

datatype gvalue = VNil | VBool bool | VInt int | VStr string | VErr gerror

text \<open>
  A \<^verbatim>\<open>reflect.Value\<close>: the zero Value (\<^verbatim>\<open>reflect.ValueOf(nil)\<close>), or a value under its
  static type.
\<close>

datatype rvalue = Invalid | RV (rtype: string) (payload: gvalue)

text \<open>\<^verbatim>\<open>errors.New\<close>: the dynamic type of what it returns is \<^verbatim>\<open>*errors.errorString\<close>.\<close>

definition errors_New :: "string \<Rightarrow> gerror" where
  "errors_New msg = GError ''*errors.errorString'' msg"

section \<open>Task signatures\<close>

text \<open>
  Modelled from the spec: the declarations of \<^verbatim>\<open>TaskArg\<close> and \<^verbatim>\<open>TaskSignature\<close> are not
  in \<^verbatim>\<open>worker.go\<close>. The fields are the ones the worker reads and writes (\<^verbatim>\<open>Name\<close>,
  \<^verbatim>\<open>Args\<close>, \<^verbatim>\<open>OnSuccess\<close>, \<^verbatim>\<open>OnError\<close>, \<^verbatim>\<open>Immutable\<close>, and \<^verbatim>\<open>Type\<close>, \<^verbatim>\<open>Value\<close> of an
  argument); the callback lists are ordered sequences of task signatures. Here they are
  lists of values; which argument lists the worker writes and shares is the subject of
  the memory model further down.
\<close>

record TaskArg =
  Type :: string
  Value :: gvalue

datatype TaskSignature =
  TaskSignature (Name: string) (Args: "TaskArg list") (OnSuccess: "TaskSignature list")
    (OnError: "TaskSignature list") (Immutable: bool)

text \<open>The assignment \<^verbatim>\<open>t.Args = args\<close>.\<close>

fun set_Args :: "TaskArg list \<Rightarrow> TaskSignature \<Rightarrow> TaskSignature" where
  "set_Args args (TaskSignature n a os oe im) = TaskSignature n args os oe im"

section \<open>What the worker does: log lines, handler calls, published tasks\<close>

datatype logline =
    NotRegistered string
  | Started string
  | Failed string
  | ErrorIs gerror
  | Finished string
  | ResultIs gvalue

datatype event = Log logline | Invoke string "gvalue list" | Publish TaskSignature

datatype status = Returned | Panicked string

fun published :: "event list \<Rightarrow> TaskSignature list" where
  "published [] = []"
| "published (Publish t # es) = t # published es"
| "published (_ # es) = published es"

fun invocations :: "event list \<Rightarrow> (string \<times> gvalue list) list" where
  "invocations [] = []"
| "invocations (Invoke n vs # es) = (n, vs) # invocations es"
| "invocations (_ # es) = invocations es"

section \<open>finalize\<close>

text \<open>
  The first argument of an error callback:
  \<^verbatim>\<open>TaskArg{Type: reflect.TypeOf(err).String(), Value: reflect.ValueOf(err).Interface()}\<close>.
\<close>

definition errorArg :: "gerror \<Rightarrow> TaskArg" where
  "errorArg err = \<lparr>Type = etype err, Value = VErr err\<rparr>"

text \<open>
  The first argument of a success callback:
  \<^verbatim>\<open>TaskArg{Type: result.Type().String(), Value: result.Interface()}\<close>.
\<close>

definition resultArg :: "string \<Rightarrow> gvalue \<Rightarrow> TaskArg" where
  "resultArg ty v = \<lparr>Type = ty, Value = v\<rparr>"

text \<open>The loop over \<^verbatim>\<open>s.OnError\<close>: one \<^verbatim>\<open>SendTask\<close> for each callback.\<close>

fun errorLoop :: "gerror \<Rightarrow> TaskSignature list \<Rightarrow> event list" where
  "errorLoop err [] = []"
| "errorLoop err (errorTask # rest) =
     Publish (set_Args (errorArg err # Args errorTask) errorTask) # errorLoop err rest"

text \<open>The loop over \<^verbatim>\<open>s.OnSuccess\<close>.\<close>

fun successLoop :: "bool \<Rightarrow> string \<Rightarrow> gvalue \<Rightarrow> TaskSignature list \<Rightarrow> event list" where
  "successLoop immutable ty v [] = []"
| "successLoop immutable ty v (successTask # rest) =
     Publish (if immutable = False
              then set_Args (resultArg ty v # Args successTask) successTask
              else successTask)
       # successLoop immutable ty v rest"

text \<open>
  \<^verbatim>\<open>finalize(s, result, err)\<close>. In the success branch \<^verbatim>\<open>result.Interface()\<close> is
  evaluated for the log line before the loop; on the zero Value it panics.
\<close>

definition finalize :: "TaskSignature \<Rightarrow> rvalue \<Rightarrow> gerror option \<Rightarrow> event list \<times> status" where
  "finalize s result err =
     (case err of
        Some e \<Rightarrow>
          ([Log (Failed (Name s)), Log (ErrorIs e)] @ errorLoop e (OnError s), Returned)
      | None \<Rightarrow>
          (case result of
             Invalid \<Rightarrow>
               ([Log (Finished (Name s))],
                Panicked ''reflect: call of reflect.Value.Interface on zero Value'')
           | RV ty v \<Rightarrow>
               ([Log (Finished (Name s)), Log (ResultIs v)]
                  @ successLoop (Immutable s) ty v (OnSuccess s),
                Returned)))"

section \<open>processMessage\<close>

text \<open>Of an \<^verbatim>\<open>amqp.Delivery\<close> the worker reads the body only.\<close>

record delivery =
  Body :: string

text \<open>
  Modelled from the spec: the registry and the registered tasks are not in \<^verbatim>\<open>worker.go\<close>.
  A registered handler is a callable with an ordered list of parameters, returning exactly
  one result value and an error indicator. \<open>params\<close> and \<open>result_type\<close> are the type names
  as \<^verbatim>\<open>reflect\<close> prints them. A Go function may end in a variadic parameter: \<open>variadic\<close>
  is then its element type, and \<open>params\<close> are the parameters before it.
\<close>

record task =
  params :: "string list"
  variadic :: "string option"
  result_type :: string
  body :: "gvalue list \<Rightarrow> gvalue \<times> gerror option"

text \<open>
  The first argument, in order, whose type is not assignable to the type of its parameter:
  the loop of \<^verbatim>\<open>Call\<close> over the parameters before the variadic one. \<open>asg x p\<close> stands
  for \<^verbatim>\<open>x.AssignableTo(p)\<close>; Go's assignability is not part of this repository and is a
  parameter.
\<close>

fun first_unassignable ::
  "(string \<Rightarrow> string \<Rightarrow> bool) \<Rightarrow> rvalue list \<Rightarrow> string list \<Rightarrow> (string \<times> string) option" where
  "first_unassignable asg (x # xs) (p # ps) =
     (if \<not> asg (rtype x) p then Some (rtype x, p) else first_unassignable asg xs ps)"
| "first_unassignable asg _ _ = None"

text \<open>
  \<^verbatim>\<open>reflect.Value.Call\<close>. Before the function runs it panics, in this order: with fewer
  arguments than parameters (the variadic one not counted); with more, unless the function
  is variadic; with an argument that is the zero Value; with an argument not assignable to
  its parameter; with an argument beyond the parameters not assignable to the variadic
  element type. Otherwise the function runs, and the results come back under the declared
  result types: the second one under the interface type \<^verbatim>\<open>error\<close>.
\<close>

definition reflect_Call ::
  "(string \<Rightarrow> string \<Rightarrow> bool) \<Rightarrow> task \<Rightarrow> rvalue list \<Rightarrow> string + (rvalue \<times> rvalue)" where
  "reflect_Call asg t args =
     (if length args < length (params t) then
        Inl ''reflect: Call with too few input arguments''
      else if variadic t = None \<and> length (params t) < length args then
        Inl ''reflect: Call with too many input arguments''
      else if Invalid \<in> set args then
        Inl ''reflect: Call using zero Value argument''
      else
        (case first_unassignable asg args (params t) of
           Some (xt, targ) \<Rightarrow> Inl (''reflect: Call using '' @ xt @ '' as type '' @ targ)
         | None \<Rightarrow>
             (case (case variadic t of
                      None \<Rightarrow> None
                    | Some elem \<Rightarrow>
                        map_option (\<lambda>x. (rtype x, elem))
                          (find (\<lambda>x. \<not> asg (rtype x) elem) (drop (length (params t)) args))) of
                Some (xt, elem) \<Rightarrow>
                  Inl (''reflect: cannot use '' @ xt @ '' as type '' @ elem @ '' in Call'')
              | None \<Rightarrow>
                  (case body t (map payload args) of
                     (r, e) \<Rightarrow>
                       Inr (RV (result_type t) r,
                            RV ''error'' (case e of None \<Rightarrow> VNil | Some g \<Rightarrow> VErr g))))))"

text \<open>\<^verbatim>\<open>reflect.Value.IsNil\<close>, on a value of interface type.\<close>

fun IsNil :: "rvalue \<Rightarrow> bool" where
  "IsNil (RV ty VNil) = True"
| "IsNil _ = False"

text \<open>
  \<^verbatim>\<open>reflect.Value.String\<close>: the string itself when the Value's kind is String, and
  otherwise, without a panic, the text \<^verbatim>\<open><T Value>\<close> for the Value's type \<^verbatim>\<open>T\<close>. A
  string under a string type, named or not, has the kind String; a string held in a
  Value of an interface type (here \<^verbatim>\<open>error\<close> and \<^verbatim>\<open>interface {}\<close>) has the kind Interface.
\<close>

fun reflect_String :: "rvalue \<Rightarrow> string" where
  "reflect_String Invalid = ''<invalid Value>''"
| "reflect_String (RV ty v) =
     (case v of
        VStr s \<Rightarrow>
          (if ty = ''error'' \<or> ty = ''interface {}'' then ''<'' @ ty @ '' Value>'' else s)
      | _ \<Rightarrow> ''<'' @ ty @ '' Value>'')"

text \<open>The events of a call, after the events that came before it.\<close>

fun after :: "event list \<Rightarrow> event list \<times> status \<Rightarrow> event list \<times> status" where
  "after pre (evs, st) = (pre @ evs, st)"

text \<open>
  \<^verbatim>\<open>processMessage(d)\<close>. \<^verbatim>\<open>json.Unmarshal\<close>, the registry lookup, assignability and
  \<^verbatim>\<open>ReflectArgs\<close> are not in \<^verbatim>\<open>worker.go\<close> and are parameters: \<open>json_Unmarshal b s\<close> is the
  signature that decoding \<open>b\<close> into \<open>s\<close> leaves behind, with the error it returns; the
  worker drops that error. A panic of \<^verbatim>\<open>Call\<close> ends the function at that line.
\<close>

definition processMessage ::
  "(string \<Rightarrow> TaskSignature \<Rightarrow> TaskSignature \<times> gerror option) \<Rightarrow>
   (string \<Rightarrow> task option) \<Rightarrow>
   (string \<Rightarrow> string \<Rightarrow> bool) \<Rightarrow>
   (TaskArg list \<Rightarrow> gerror + rvalue list) \<Rightarrow>
   delivery \<Rightarrow> event list \<times> status" where
  "processMessage json_Unmarshal GetRegisteredTask AssignableTo ReflectArgs d =
     (let s = fst (json_Unmarshal (Body d) (TaskSignature [] [] [] [] False)) in
      case GetRegisteredTask (Name s) of
        None \<Rightarrow> ([Log (NotRegistered (Name s))], Returned)
      | Some task \<Rightarrow>
          (case ReflectArgs (Args s) of
             Inl err \<Rightarrow> after [Log (Started (Name s))] (finalize s Invalid (Some err))
           | Inr reflectedArgs \<Rightarrow>
               (case reflect_Call AssignableTo task reflectedArgs of
                  Inl p \<Rightarrow> ([Log (Started (Name s))], Panicked p)
                | Inr (r0, r1) \<Rightarrow>
                    after [Log (Started (Name s)), Invoke (Name s) (map payload reflectedArgs)]
                      (if \<not> IsNil r1
                       then finalize s Invalid (Some (errors_New (reflect_String r1)))
                       else finalize s r0 None))))"

section \<open>finalize over a memory of argument lists\<close>


















section \<open>Argument decoding and the scenarios\<close>

text \<open>
  Modelled from the spec: \<^verbatim>\<open>ReflectArgs\<close> is not in \<^verbatim>\<open>worker.go\<close>. Each argument is
  decoded, in order, into a value of its declared type; decoding fails when the declared
  type is unknown or the value is not of that type, and one failure fails the whole list.
\<close>

fun reflectArg :: "TaskArg \<Rightarrow> gerror + rvalue" where
  "reflectArg a =
     (if Type a = ''int'' then
        (case Value a of
           VInt i \<Rightarrow> Inr (RV ''int'' (VInt i))
         | _ \<Rightarrow> Inl (errors_New ''value is not an int''))
      else if Type a = ''string'' then
        (case Value a of
           VStr x \<Rightarrow> Inr (RV ''string'' (VStr x))
         | _ \<Rightarrow> Inl (errors_New ''value is not a string''))
      else if Type a = ''bool'' then
        (case Value a of
           VBool b \<Rightarrow> Inr (RV ''bool'' (VBool b))
         | _ \<Rightarrow> Inl (errors_New ''value is not a bool''))
      else Inl (errors_New ''unsupported type''))"

fun ReflectArgs_spec :: "TaskArg list \<Rightarrow> gerror + rvalue list" where
  "ReflectArgs_spec [] = Inr []"
| "ReflectArgs_spec (a # rest) =
     (case reflectArg a of
        Inl e \<Rightarrow> Inl e
      | Inr v \<Rightarrow> (case ReflectArgs_spec rest of Inl e \<Rightarrow> Inl e | Inr vs \<Rightarrow> Inr (v # vs)))"

text \<open>A decoder that fills the signature with \<open>s\<close> and returns the error \<open>e\<close>.\<close>

definition decodes_to ::
  "TaskSignature \<Rightarrow> gerror option \<Rightarrow> string \<Rightarrow> TaskSignature \<Rightarrow> TaskSignature \<times> gerror option" where
  "decodes_to s e b s0 = (s, e)"

definition int_arg :: "int \<Rightarrow> TaskArg" where
  "int_arg i = \<lparr>Type = ''int'', Value = VInt i\<rparr>"

definition string_arg :: "string \<Rightarrow> TaskArg" where
  "string_arg x = \<lparr>Type = ''string'', Value = VStr x\<rparr>"

text \<open>The handlers of the scenarios: \<open>add\<close>, \<open>backup\<close> (it fails: disk full), \<open>ping\<close>.\<close>

definition add_task :: task where
  "add_task =
     \<lparr>params = [''int'', ''int''], variadic = None, result_type = ''int'',
      body = (\<lambda>vs. case vs of [VInt x, VInt y] \<Rightarrow> (VInt (x + y), None) | _ \<Rightarrow> (VInt 0, None))\<rparr>"

definition backup_task :: task where
  "backup_task =
     \<lparr>params = [], variadic = None, result_type = ''string'',
      body = (\<lambda>vs. (VStr [], Some (errors_New ''disk full'')))\<rparr>"

definition ping_task :: task where
  "ping_task =
     \<lparr>params = [], variadic = None, result_type = ''string'',
      body = (\<lambda>vs. (VStr ''pong'', None))\<rparr>"

definition registry :: "string \<Rightarrow> task option" where
  "registry n =
     (if n = ''add'' then Some add_task
      else if n = ''backup'' then Some backup_task
      else if n = ''ping'' then Some ping_task
      else None)"

definition log_sig :: TaskSignature where
  "log_sig = TaskSignature ''log'' [] [] [] False"

definition alert_sig :: TaskSignature where
  "alert_sig = TaskSignature ''alert'' [string_arg ''pager''] [] [] False"

text \<open>Scenario D: \<open>backup\<close> fails, and \<open>alert\<close> is its error callback.\<close>

definition backup_sig :: TaskSignature where
  "backup_sig = TaskSignature ''backup'' [] [log_sig] [alert_sig] False"

text \<open>Scenario C: a name that is not registered.\<close>

definition ghost_sig :: TaskSignature where
  "ghost_sig = TaskSignature ''ghost'' [int_arg 1] [log_sig] [alert_sig] False"

text \<open>The same name, with an argument that cannot be decoded.\<close>

definition ghost_bad_sig :: TaskSignature where
  "ghost_bad_sig =
     TaskSignature ''ghost'' [\<lparr>Type = ''int'', Value = VStr ''three''\<rparr>] [log_sig] [alert_sig]
       False"

text \<open>An argument declared \<open>int\<close> whose value is a string.\<close>

definition bad_arg_sig :: TaskSignature where
  "bad_arg_sig =
     TaskSignature ''add'' [int_arg 2, \<lparr>Type = ''int'', Value = VStr ''three''\<rparr>]
       [log_sig] [alert_sig] False"


text \<open>
  What \<^verbatim>\<open>json.Unmarshal\<close> leaves of the body
  \<^verbatim>\<open>{"Name":"ping","OnSuccess":[{"Name":"log"}],"Args":5}\<close>: the fields that fit are
  filled, \<^verbatim>\<open>Args\<close> is skipped, and an \<^verbatim>\<open>UnmarshalTypeError\<close> is returned.
\<close>

definition half_decoded :: TaskSignature where
  "half_decoded = TaskSignature ''ping'' [] [log_sig] [] False"

definition type_error :: gerror where
  "type_error =
     GError ''*json.UnmarshalTypeError''
       ''json: cannot unmarshal number into Go struct field TaskSignature.Args''"

text \<open>
  Assignability as far as the scenarios need it: a type to itself, and every type to the
  empty interface.
\<close>

definition assignable :: "string \<Rightarrow> string \<Rightarrow> bool" where
  "assignable xt targ = (xt = targ \<or> targ = ''interface {}'')"





section \<open>Properties of finalize\<close>

lemma published_append: "published (xs @ ys) = published xs @ published ys"
  by (induction xs rule: published.induct) simp_all

lemma invocations_append: "invocations (xs @ ys) = invocations xs @ invocations ys"
  by (induction xs rule: invocations.induct) simp_all

lemma published_map_Publish: "published (map (\<lambda>c. Publish (f c)) ts) = map f ts"
  by (induction ts) simp_all

lemma errorLoop_map:
  "errorLoop e ts = map (\<lambda>c. Publish (set_Args (errorArg e # Args c) c)) ts"
  by (induction ts) simp_all

lemma successLoop_map:
  "successLoop im ty v ts =
     map (\<lambda>c. Publish (if im = False then set_Args (resultArg ty v # Args c) c else c)) ts"
  by (induction ts) simp_all

lemma set_Args_expand:
  "set_Args as c = TaskSignature (Name c) as (OnSuccess c) (OnError c) (Immutable c)"
  by (cases c) simp

lemma finalize_success_mutable:
  "finalize (TaskSignature n a os oe False) (RV ty v) None =
     ([Log (Finished n), Log (ResultIs v)] @
      map (\<lambda>c. Publish (TaskSignature (Name c) (\<lparr>Type = ty, Value = v\<rparr> # Args c)
                           (OnSuccess c) (OnError c) (Immutable c))) os,
      Returned)"
  by (simp add: finalize_def successLoop_map set_Args_expand resultArg_def)

lemma finalize_success_immutable:
  "finalize (TaskSignature n a os oe True) (RV ty v) None =
     ([Log (Finished n), Log (ResultIs v)] @ map Publish os, Returned)"
  by (simp add: finalize_def successLoop_map)

lemma finalize_failure:
  "finalize (TaskSignature n a os oe im) r (Some e) =
     ([Log (Failed n), Log (ErrorIs e)] @
      map (\<lambda>c. Publish (TaskSignature (Name c) (\<lparr>Type = etype e, Value = VErr e\<rparr> # Args c)
                           (OnSuccess c) (OnError c) (Immutable c))) oe,
      Returned)"
  by (simp add: finalize_def errorLoop_map set_Args_expand errorArg_def)

text \<open>
  C1. When \<open>Immutable\<close> is false and the handler succeeded with the result \<open>v\<close> of type
  \<open>ty\<close>, \<open>finalize\<close> publishes the success callbacks in list order, one publish each;
  each published callback is the declared one with the argument \<open>(ty, v)\<close> put in front
  of its declared arguments, which follow in their order.
\<close>

theorem finalize_success_prepends_result:
  "finalize (TaskSignature n a os oe False) (RV ty v) None =
     ([Log (Finished n), Log (ResultIs v)] @
      map (\<lambda>c. Publish (TaskSignature (Name c) (\<lparr>Type = ty, Value = v\<rparr> # Args c)
                           (OnSuccess c) (OnError c) (Immutable c))) os,
      Returned)
   \<and> length (published (fst (finalize (TaskSignature n a os oe False) (RV ty v) None))) = length os
   \<and> map (\<lambda>t. hd (Args t)) (published (fst (finalize (TaskSignature n a os oe False) (RV ty v) None)))
       = replicate (length os) \<lparr>Type = ty, Value = v\<rparr>
   \<and> map (\<lambda>t. tl (Args t)) (published (fst (finalize (TaskSignature n a os oe False) (RV ty v) None)))
       = map Args os"
  by (simp add: finalize_success_mutable published_append published_map_Publish comp_def
      map_replicate_const)

text \<open>
  C2. When \<open>Immutable\<close> is true and the handler succeeded, \<open>finalize\<close> publishes the
  success callbacks as they are declared: nothing is put in front of their arguments.
\<close>

theorem finalize_immutable_keeps_args:
  "finalize (TaskSignature n a os oe True) (RV ty v) None =
     ([Log (Finished n), Log (ResultIs v)] @ map Publish os, Returned)
   \<and> published (fst (finalize (TaskSignature n a os oe True) (RV ty v) None)) = os
   \<and> map Args (published (fst (finalize (TaskSignature n a os oe True) (RV ty v) None)))
       = map Args os"
  by (simp add: finalize_success_immutable published_append published_map_Publish)

text \<open>
  C3. On a failure, \<open>finalize\<close> publishes the error callbacks in list order, each with
  the error put in front of its declared arguments, whatever \<open>Immutable\<close> is; with no
  error callback, nothing is published.
\<close>

theorem finalize_failure_prepends_error:
  "finalize (TaskSignature n a os oe im) r (Some e) =
     ([Log (Failed n), Log (ErrorIs e)] @
      map (\<lambda>c. Publish (TaskSignature (Name c) (\<lparr>Type = etype e, Value = VErr e\<rparr> # Args c)
                           (OnSuccess c) (OnError c) (Immutable c))) oe,
      Returned)
   \<and> map (\<lambda>t. hd (Args t)) (published (fst (finalize (TaskSignature n a os oe im) r (Some e))))
       = replicate (length oe) \<lparr>Type = etype e, Value = VErr e\<rparr>
   \<and> map (\<lambda>t. tl (Args t)) (published (fst (finalize (TaskSignature n a os oe im) r (Some e))))
       = map Args oe
   \<and> published (fst (finalize (TaskSignature n a os oe True) r (Some e)))
       = published (fst (finalize (TaskSignature n a os oe False) r (Some e)))
   \<and> published (fst (finalize (TaskSignature n a os [] im) r (Some e))) = []"
  by (simp add: finalize_failure published_append published_map_Publish comp_def
      map_replicate_const)

text \<open>
  C10. One branch of \<open>finalize\<close> runs. With an error, the published tasks are the error
  callbacks and do not depend on the success callbacks; without one, they are the success
  callbacks and do not depend on the error callbacks (and none is published when the
  result is the zero Value, where \<open>finalize\<close> panics before its loop).
\<close>

theorem finalize_one_branch:
  "map Name (published (fst (finalize (TaskSignature n a os oe im) r (Some e)))) = map Name oe
   \<and> published (fst (finalize (TaskSignature n a os oe im) r (Some e)))
       = published (fst (finalize (TaskSignature n a os' oe im) r (Some e)))
   \<and> map Name (published (fst (finalize (TaskSignature n a os oe im) (RV ty v) None)))
       = map Name os
   \<and> published (fst (finalize (TaskSignature n a os oe im) r None))
       = published (fst (finalize (TaskSignature n a os oe' im) r None))
   \<and> published (fst (finalize (TaskSignature n a os oe im) Invalid None)) = []"
proof -
  have fail: "map Name (published (fst (finalize (TaskSignature n a os oe im) r (Some e))))
      = map Name oe"
    by (simp add: finalize_failure published_append published_map_Publish comp_def)
  have fail_indep: "published (fst (finalize (TaskSignature n a os oe im) r (Some e)))
      = published (fst (finalize (TaskSignature n a os' oe im) r (Some e)))"
    by (simp add: finalize_failure)
  have ok: "map Name (published (fst (finalize (TaskSignature n a os oe im) (RV ty v) None)))
      = map Name os"
    by (cases im)
      (simp_all add: finalize_success_mutable finalize_success_immutable published_append
        published_map_Publish comp_def)
  have ok_indep: "published (fst (finalize (TaskSignature n a os oe im) r None))
      = published (fst (finalize (TaskSignature n a os oe' im) r None))"
    by (cases r) (simp_all add: finalize_def)
  have zero: "published (fst (finalize (TaskSignature n a os oe im) Invalid None)) = []"
    by (simp add: finalize_def)
  from fail fail_indep ok ok_indep zero show ?thesis by blast
qed

section \<open>Properties of processMessage\<close>

lemma processMessage_unregistered:
  assumes "reg (Name (fst (dec (Body d) (TaskSignature [] [] [] [] False)))) = None"
  shows "processMessage dec reg asg rargs d =
    ([Log (NotRegistered (Name (fst (dec (Body d) (TaskSignature [] [] [] [] False)))))],
     Returned)"
  using assms by (simp add: processMessage_def Let_def)

lemma processMessage_bad_args:
  assumes "reg (Name (fst (dec (Body d) (TaskSignature [] [] [] [] False)))) = Some t"
    and "rargs (Args (fst (dec (Body d) (TaskSignature [] [] [] [] False)))) = Inl err"
  shows "processMessage dec reg asg rargs d =
    after [Log (Started (Name (fst (dec (Body d) (TaskSignature [] [] [] [] False)))))]
      (finalize (fst (dec (Body d) (TaskSignature [] [] [] [] False))) Invalid (Some err))"
  using assms by (simp add: processMessage_def Let_def)

lemma processMessage_panic:
  assumes "reg (Name (fst (dec (Body d) (TaskSignature [] [] [] [] False)))) = Some t"
    and "rargs (Args (fst (dec (Body d) (TaskSignature [] [] [] [] False)))) = Inr args"
    and "reflect_Call asg t args = Inl p"
  shows "processMessage dec reg asg rargs d =
    ([Log (Started (Name (fst (dec (Body d) (TaskSignature [] [] [] [] False)))))], Panicked p)"
  using assms by (simp add: processMessage_def Let_def)

lemma processMessage_called:
  assumes "reg (Name (fst (dec (Body d) (TaskSignature [] [] [] [] False)))) = Some t"
    and "rargs (Args (fst (dec (Body d) (TaskSignature [] [] [] [] False)))) = Inr args"
    and "reflect_Call asg t args = Inr (r0, r1)"
  shows "processMessage dec reg asg rargs d =
    after [Log (Started (Name (fst (dec (Body d) (TaskSignature [] [] [] [] False))))),
           Invoke (Name (fst (dec (Body d) (TaskSignature [] [] [] [] False)))) (map payload args)]
      (if \<not> IsNil r1
       then finalize (fst (dec (Body d) (TaskSignature [] [] [] [] False))) Invalid
              (Some (errors_New (reflect_String r1)))
       else finalize (fst (dec (Body d) (TaskSignature [] [] [] [] False))) r0 None)"
  using assms by (simp add: processMessage_def Let_def)

lemma finalize_failure_sel:
  "finalize s r (Some e) =
     ([Log (Failed (Name s)), Log (ErrorIs e)] @
      map (\<lambda>c. Publish (TaskSignature (Name c) (\<lparr>Type = etype e, Value = VErr e\<rparr> # Args c)
                           (OnSuccess c) (OnError c) (Immutable c))) (OnError s),
      Returned)"
  by (cases s) (simp add: finalize_failure)

lemma invocations_map_Publish: "invocations (map (\<lambda>c. Publish (f c)) ts) = []"
  by (induction ts) simp_all

text \<open>
  C5. A message whose task name is not in the registry is logged and dropped: no handler
  is invoked and nothing is published.
\<close>

theorem unregistered_task_is_dropped:
  assumes "reg (Name (fst (dec (Body d) (TaskSignature [] [] [] [] False)))) = None"
  shows "processMessage dec reg asg rargs d =
      ([Log (NotRegistered (Name (fst (dec (Body d) (TaskSignature [] [] [] [] False)))))],
       Returned)
    \<and> invocations (fst (processMessage dec reg asg rargs d)) = []
    \<and> published (fst (processMessage dec reg asg rargs d)) = []"
  using assms by (simp add: processMessage_unregistered [where reg = reg and dec = dec and d = d])

theorem unregistered_task_is_dropped_witness:
  "registry (Name (fst (decodes_to ghost_sig None ''ghost'' (TaskSignature [] [] [] [] False))))
     = None
   \<and> processMessage (decodes_to ghost_sig None) registry assignable ReflectArgs_spec \<lparr>Body = ''ghost''\<rparr>
     = ([Log (NotRegistered ''ghost'')], Returned)
   \<and> invocations (fst (processMessage (decodes_to ghost_sig None) registry assignable ReflectArgs_spec
        \<lparr>Body = ''ghost''\<rparr>)) = []
   \<and> published (fst (processMessage (decodes_to ghost_sig None) registry assignable ReflectArgs_spec
        \<lparr>Body = ''ghost''\<rparr>)) = []"
proof -
  have h: "registry (Name (fst (decodes_to ghost_sig None (Body \<lparr>Body = ''ghost''\<rparr>)
      (TaskSignature [] [] [] [] False)))) = None"
    by (simp add: registry_def decodes_to_def ghost_sig_def)
  from unregistered_task_is_dropped [where reg = registry and dec = "decodes_to ghost_sig None"
      and d = "\<lparr>Body = ''ghost''\<rparr>" and rargs = ReflectArgs_spec and asg = assignable] h
  show ?thesis
    by (simp add: decodes_to_def ghost_sig_def)
qed

lemma first_unassignable_all:
  "length args = length ps \<Longrightarrow>
     (first_unassignable asg args ps = None) = list_all2 asg (map rtype args) ps"
  by (induction args ps rule: list_induct2) simp_all

lemma reflect_Call_fits:
  assumes "variadic t = None" and "length args = length (params t)" and "Invalid \<notin> set args"
    and "list_all2 asg (map rtype args) (params t)"
  shows "reflect_Call asg t args =
    Inr (RV (result_type t) (fst (body t (map payload args))),
         RV ''error'' (case snd (body t (map payload args)) of None \<Rightarrow> VNil | Some g \<Rightarrow> VErr g))"
proof -
  from assms(2,4) have "first_unassignable asg args (params t) = None"
    by (simp add: first_unassignable_all)
  with assms(1-3) show ?thesis
    by (simp add: reflect_Call_def case_prod_beta)
qed



lemma invocations_finalize: "invocations (fst (finalize s r e)) = []"
  by (cases e; cases r)
    (simp_all add: finalize_def invocations_append errorLoop_map successLoop_map
      invocations_map_Publish)

lemma after_fst: "fst (after pre x) = pre @ fst x"
  by (cases x) simp


text \<open>
  C4. The first argument of a published error callback holds the error: its type is the
  error's dynamic type and its value the error. The claim's scenario D, a handler that
  returns the error "disk full" with the error callback \<open>alert\<close> (arguments: "pager"),
  evaluated on the code: one callback is published, and the message it carries is
  \<^verbatim>\<open><error Value>\<close>, which is what \<^verbatim>\<open>results[1].String()\<close> returns for a result of the
  interface type \<^verbatim>\<open>error\<close>; "disk full" is lost.
\<close>

theorem disk_full_message_is_lost:
  "processMessage (decodes_to backup_sig None) registry asg ReflectArgs_spec
     \<lparr>Body = ''backup''\<rparr> =
     ([Log (Started ''backup''), Invoke ''backup'' [], Log (Failed ''backup''),
       Log (ErrorIs (GError ''*errors.errorString'' ''<error Value>'')),
       Publish (TaskSignature ''alert''
         [\<lparr>Type = ''*errors.errorString'',
           Value = VErr (GError ''*errors.errorString'' ''<error Value>'')\<rparr>,
          \<lparr>Type = ''string'', Value = VStr ''pager''\<rparr>] [] [] False)],
      Returned)"
  by (simp add: processMessage_def decodes_to_def backup_sig_def registry_def backup_task_def
      reflect_Call_def finalize_def errors_New_def errorArg_def alert_sig_def string_arg_def
      log_sig_def)

text \<open>The same for every handler with fixed parameters and every error it returns.\<close>

lemma handler_error_message:
  assumes "reg (Name (fst (dec (Body d) (TaskSignature [] [] [] [] False)))) = Some t"
    and "rargs (Args (fst (dec (Body d) (TaskSignature [] [] [] [] False)))) = Inr args"
    and "variadic t = None" and "length args = length (params t)" and "Invalid \<notin> set args"
    and "list_all2 asg (map rtype args) (params t)"
    and "snd (body t (map payload args)) = Some g"
  shows "published (fst (processMessage dec reg asg rargs d)) =
     map (\<lambda>c. TaskSignature (Name c)
            (\<lparr>Type = ''*errors.errorString'',
              Value = VErr (GError ''*errors.errorString'' ''<error Value>'')\<rparr> # Args c)
            (OnSuccess c) (OnError c) (Immutable c))
       (OnError (fst (dec (Body d) (TaskSignature [] [] [] [] False))))"
proof -
  note c = reflect_Call_fits [OF assms(3-6)]
  note p = processMessage_called [where reg = reg and dec = dec and d = d and rargs = rargs
      and asg = asg and t = t and args = args, OF assms(1,2) c]
  from assms(7) show ?thesis
    by (simp add: p finalize_failure_sel published_append published_map_Publish errors_New_def)
qed

text \<open>
  C6 (amended). When an argument of the signature cannot be decoded, the handler is not
  invoked. When the name of the signature is not registered, the message is dropped
  before its arguments are looked at, and nothing is published. When the name is
  registered, the decoding error goes to the failure branch of \<open>finalize\<close>: every error
  callback is published, in order, with that error in front of its arguments, and no
  success callback; then nothing is published only when the signature has no error
  callback.
\<close>

theorem undecodable_argument_fires_error_callbacks:
  assumes "rargs (Args (fst (dec (Body d) (TaskSignature [] [] [] [] False)))) = Inl err"
  shows "invocations (fst (processMessage dec reg asg rargs d)) = []
    \<and> (reg (Name (fst (dec (Body d) (TaskSignature [] [] [] [] False)))) = None \<longrightarrow>
         processMessage dec reg asg rargs d =
           ([Log (NotRegistered (Name (fst (dec (Body d) (TaskSignature [] [] [] [] False)))))],
            Returned))
    \<and> (reg (Name (fst (dec (Body d) (TaskSignature [] [] [] [] False)))) \<noteq> None \<longrightarrow>
         processMessage dec reg asg rargs d =
           ([Log (Started (Name (fst (dec (Body d) (TaskSignature [] [] [] [] False))))),
             Log (Failed (Name (fst (dec (Body d) (TaskSignature [] [] [] [] False))))),
             Log (ErrorIs err)] @
            map (\<lambda>c. Publish (TaskSignature (Name c)
                                 (\<lparr>Type = etype err, Value = VErr err\<rparr> # Args c)
                                 (OnSuccess c) (OnError c) (Immutable c)))
              (OnError (fst (dec (Body d) (TaskSignature [] [] [] [] False)))),
            Returned)
         \<and> (published (fst (processMessage dec reg asg rargs d)) = []
              \<longleftrightarrow> OnError (fst (dec (Body d) (TaskSignature [] [] [] [] False))) = []))"
proof (cases "reg (Name (fst (dec (Body d) (TaskSignature [] [] [] [] False))))")
  case None
  then show ?thesis
    by (simp add: processMessage_unregistered [where reg = reg and dec = dec and d = d])
next
  case (Some t)
  with assms show ?thesis
    by (simp add: processMessage_bad_args [where reg = reg and dec = dec and d = d
          and t = t and err = err]
        finalize_failure_sel published_append published_map_Publish invocations_append
        invocations_map_Publish)
qed

theorem undecodable_argument_fires_error_callbacks_witness:
  "ReflectArgs_spec (Args (fst (decodes_to bad_arg_sig None ''add''
        (TaskSignature [] [] [] [] False)))) = Inl (errors_New ''value is not an int'')
   \<and> registry (Name (fst (decodes_to bad_arg_sig None ''add'' (TaskSignature [] [] [] [] False))))
       = Some add_task
   \<and> processMessage (decodes_to bad_arg_sig None) registry assignable ReflectArgs_spec
       \<lparr>Body = ''add''\<rparr> =
       ([Log (Started ''add''), Log (Failed ''add''),
         Log (ErrorIs (errors_New ''value is not an int'')),
         Publish (TaskSignature ''alert''
           [\<lparr>Type = ''*errors.errorString'', Value = VErr (errors_New ''value is not an int'')\<rparr>,
            string_arg ''pager''] [] [] False)],
        Returned)
   \<and> ReflectArgs_spec (Args (fst (decodes_to ghost_bad_sig None ''ghost''
        (TaskSignature [] [] [] [] False)))) = Inl (errors_New ''value is not an int'')
   \<and> registry (Name (fst (decodes_to ghost_bad_sig None ''ghost''
        (TaskSignature [] [] [] [] False)))) = None
   \<and> processMessage (decodes_to ghost_bad_sig None) registry assignable ReflectArgs_spec
       \<lparr>Body = ''ghost''\<rparr> = ([Log (NotRegistered ''ghost'')], Returned)"
proof -
  have h1: "registry (Name (fst (decodes_to bad_arg_sig None (Body \<lparr>Body = ''add''\<rparr>)
      (TaskSignature [] [] [] [] False)))) = Some add_task"
    by (simp add: registry_def decodes_to_def bad_arg_sig_def)
  have h2: "ReflectArgs_spec (Args (fst (decodes_to bad_arg_sig None (Body \<lparr>Body = ''add''\<rparr>)
      (TaskSignature [] [] [] [] False)))) = Inl (errors_New ''value is not an int'')"
    by (simp add: decodes_to_def bad_arg_sig_def int_arg_def)
  have g1: "registry (Name (fst (decodes_to ghost_bad_sig None (Body \<lparr>Body = ''ghost''\<rparr>)
      (TaskSignature [] [] [] [] False)))) = None"
    by (simp add: registry_def decodes_to_def ghost_bad_sig_def)
  have g2: "ReflectArgs_spec (Args (fst (decodes_to ghost_bad_sig None
      (Body \<lparr>Body = ''ghost''\<rparr>) (TaskSignature [] [] [] [] False))))
      = Inl (errors_New ''value is not an int'')"
    by (simp add: decodes_to_def ghost_bad_sig_def)
  from undecodable_argument_fires_error_callbacks [where reg = registry
      and dec = "decodes_to bad_arg_sig None" and d = "\<lparr>Body = ''add''\<rparr>"
      and rargs = ReflectArgs_spec and asg = assignable
      and err = "errors_New ''value is not an int''", OF h2] h1
  have a: "processMessage (decodes_to bad_arg_sig None) registry assignable ReflectArgs_spec
       \<lparr>Body = ''add''\<rparr> =
       ([Log (Started ''add''), Log (Failed ''add''),
         Log (ErrorIs (errors_New ''value is not an int'')),
         Publish (TaskSignature ''alert''
           [\<lparr>Type = ''*errors.errorString'', Value = VErr (errors_New ''value is not an int'')\<rparr>,
            string_arg ''pager''] [] [] False)],
        Returned)"
    by (simp add: decodes_to_def bad_arg_sig_def alert_sig_def errors_New_def)
  from undecodable_argument_fires_error_callbacks [where reg = registry
      and dec = "decodes_to ghost_bad_sig None" and d = "\<lparr>Body = ''ghost''\<rparr>"
      and rargs = ReflectArgs_spec and asg = assignable
      and err = "errors_New ''value is not an int''", OF g2] g1
  have b: "processMessage (decodes_to ghost_bad_sig None) registry assignable ReflectArgs_spec
       \<lparr>Body = ''ghost''\<rparr> = ([Log (NotRegistered ''ghost'')], Returned)"
    by (simp add: decodes_to_def ghost_bad_sig_def)
  from h1 h2 g1 g2 a b show ?thesis by simp
qed

text \<open>
  The claim as stated (no publish call) fails: an argument declared \<open>int\<close> with a string
  value, under a registered name and with one error callback, which is published.
\<close>

theorem undecodable_argument_counterexample:
  "registry (Name bad_arg_sig) = Some add_task
   \<and> ReflectArgs_spec (Args bad_arg_sig) = Inl (errors_New ''value is not an int'')
   \<and> invocations (fst (processMessage (decodes_to bad_arg_sig None) registry assignable
        ReflectArgs_spec \<lparr>Body = ''add''\<rparr>)) = []
   \<and> published (fst (processMessage (decodes_to bad_arg_sig None) registry assignable
        ReflectArgs_spec \<lparr>Body = ''add''\<rparr>)) =
       [TaskSignature ''alert''
          [\<lparr>Type = ''*errors.errorString'', Value = VErr (errors_New ''value is not an int'')\<rparr>,
           string_arg ''pager''] [] [] False]"
  by (simp add: processMessage_def decodes_to_def bad_arg_sig_def registry_def int_arg_def
      finalize_def errors_New_def errorArg_def alert_sig_def)




text \<open>
  C9 (amended). The error that decoding the envelope returns is dropped: a failed decode
  is neither logged nor a reason to drop the message. The message is processed as the
  signature that decoding left behind, exactly as if decoding had succeeded with it:
  when its name is not registered (as the empty name of the empty signature, with no
  handler registered under it), the message is logged as not registered and dropped;
  when its arguments cannot be decoded, the failure branch of \<open>finalize\<close> runs; when
  \<^verbatim>\<open>Call\<close> refuses the arguments, it panics and nothing is invoked or published; and when
  \<^verbatim>\<open>Call\<close> takes them, the handler is invoked once and \<open>finalize\<close> runs on its outcome.
\<close>

theorem decode_error_is_ignored:
  assumes "snd (dec (Body d) (TaskSignature [] [] [] [] False)) = Some derr"
  shows "processMessage dec reg asg rargs d =
      processMessage (decodes_to (fst (dec (Body d) (TaskSignature [] [] [] [] False))) None)
        reg asg rargs d
    \<and> (reg (Name (fst (dec (Body d) (TaskSignature [] [] [] [] False)))) = None \<longrightarrow>
         processMessage dec reg asg rargs d =
           ([Log (NotRegistered (Name (fst (dec (Body d) (TaskSignature [] [] [] [] False)))))],
            Returned))
    \<and> (reg (Name (fst (dec (Body d) (TaskSignature [] [] [] [] False)))) = Some t
         \<and> rargs (Args (fst (dec (Body d) (TaskSignature [] [] [] [] False)))) = Inl err \<longrightarrow>
         processMessage dec reg asg rargs d =
           after [Log (Started (Name (fst (dec (Body d) (TaskSignature [] [] [] [] False)))))]
             (finalize (fst (dec (Body d) (TaskSignature [] [] [] [] False))) Invalid (Some err)))
    \<and> (reg (Name (fst (dec (Body d) (TaskSignature [] [] [] [] False)))) = Some t
         \<and> rargs (Args (fst (dec (Body d) (TaskSignature [] [] [] [] False)))) = Inr args
         \<and> reflect_Call asg t args = Inl p \<longrightarrow>
         processMessage dec reg asg rargs d =
           ([Log (Started (Name (fst (dec (Body d) (TaskSignature [] [] [] [] False)))))],
            Panicked p))
    \<and> (reg (Name (fst (dec (Body d) (TaskSignature [] [] [] [] False)))) = Some t
         \<and> rargs (Args (fst (dec (Body d) (TaskSignature [] [] [] [] False)))) = Inr args
         \<and> reflect_Call asg t args = Inr (r0, r1) \<longrightarrow>
         processMessage dec reg asg rargs d =
           after [Log (Started (Name (fst (dec (Body d) (TaskSignature [] [] [] [] False))))),
                  Invoke (Name (fst (dec (Body d) (TaskSignature [] [] [] [] False))))
                    (map payload args)]
             (if \<not> IsNil r1
              then finalize (fst (dec (Body d) (TaskSignature [] [] [] [] False))) Invalid
                     (Some (errors_New (reflect_String r1)))
              else finalize (fst (dec (Body d) (TaskSignature [] [] [] [] False))) r0 None)
         \<and> invocations (fst (processMessage dec reg asg rargs d)) =
             [(Name (fst (dec (Body d) (TaskSignature [] [] [] [] False))), map payload args)])"
proof -
  have same: "processMessage dec reg asg rargs d =
      processMessage (decodes_to (fst (dec (Body d) (TaskSignature [] [] [] [] False))) None)
        reg asg rargs d"
    by (simp add: processMessage_def decodes_to_def)
  have called: "invocations (fst (processMessage dec reg asg rargs d)) =
      [(Name (fst (dec (Body d) (TaskSignature [] [] [] [] False))), map payload args)]"
    if "reg (Name (fst (dec (Body d) (TaskSignature [] [] [] [] False)))) = Some t"
      and "rargs (Args (fst (dec (Body d) (TaskSignature [] [] [] [] False)))) = Inr args"
      and "reflect_Call asg t args = Inr (r0, r1)"
    by (simp add: processMessage_called [where reg = reg and dec = dec and d = d
          and rargs = rargs and asg = asg and t = t and args = args, OF that]
        after_fst invocations_append invocations_finalize)
  have unreg: "processMessage dec reg asg rargs d =
      ([Log (NotRegistered (Name (fst (dec (Body d) (TaskSignature [] [] [] [] False)))))],
       Returned)"
    if "reg (Name (fst (dec (Body d) (TaskSignature [] [] [] [] False)))) = None"
    using that by (rule processMessage_unregistered)
  have bad: "processMessage dec reg asg rargs d =
      after [Log (Started (Name (fst (dec (Body d) (TaskSignature [] [] [] [] False)))))]
        (finalize (fst (dec (Body d) (TaskSignature [] [] [] [] False))) Invalid (Some err))"
    if "reg (Name (fst (dec (Body d) (TaskSignature [] [] [] [] False)))) = Some t
         \<and> rargs (Args (fst (dec (Body d) (TaskSignature [] [] [] [] False)))) = Inl err"
    using that
    by (intro processMessage_bad_args [where reg = reg and dec = dec and d = d and t = t])
      simp_all
  have panic: "processMessage dec reg asg rargs d =
      ([Log (Started (Name (fst (dec (Body d) (TaskSignature [] [] [] [] False)))))],
       Panicked p)"
    if "reg (Name (fst (dec (Body d) (TaskSignature [] [] [] [] False)))) = Some t
         \<and> rargs (Args (fst (dec (Body d) (TaskSignature [] [] [] [] False)))) = Inr args
         \<and> reflect_Call asg t args = Inl p"
    using that
    by (intro processMessage_panic [where reg = reg and dec = dec and d = d and t = t
          and args = args])
      simp_all
  have run: "processMessage dec reg asg rargs d =
      after [Log (Started (Name (fst (dec (Body d) (TaskSignature [] [] [] [] False))))),
             Invoke (Name (fst (dec (Body d) (TaskSignature [] [] [] [] False))))
               (map payload args)]
        (if \<not> IsNil r1
         then finalize (fst (dec (Body d) (TaskSignature [] [] [] [] False))) Invalid
                (Some (errors_New (reflect_String r1)))
         else finalize (fst (dec (Body d) (TaskSignature [] [] [] [] False))) r0 None)
      \<and> invocations (fst (processMessage dec reg asg rargs d)) =
          [(Name (fst (dec (Body d) (TaskSignature [] [] [] [] False))), map payload args)]"
    if h: "reg (Name (fst (dec (Body d) (TaskSignature [] [] [] [] False)))) = Some t
         \<and> rargs (Args (fst (dec (Body d) (TaskSignature [] [] [] [] False)))) = Inr args
         \<and> reflect_Call asg t args = Inr (r0, r1)"
  proof -
    from h have a: "reg (Name (fst (dec (Body d) (TaskSignature [] [] [] [] False)))) = Some t"
      and b: "rargs (Args (fst (dec (Body d) (TaskSignature [] [] [] [] False)))) = Inr args"
      and c: "reflect_Call asg t args = Inr (r0, r1)"
      by simp_all
    note p = processMessage_called [where reg = reg and dec = dec and d = d
        and rargs = rargs and asg = asg and t = t and args = args, OF a b c]
    from called [OF a b c] p show ?thesis by simp
  qed
  from same unreg bad panic run show ?thesis by blast
qed

theorem decode_error_is_ignored_witness:
  "snd (decodes_to half_decoded (Some type_error) ''ping'' (TaskSignature [] [] [] [] False))
     = Some type_error
   \<and> registry (Name (fst (decodes_to half_decoded (Some type_error) ''ping''
        (TaskSignature [] [] [] [] False)))) = Some ping_task
   \<and> ReflectArgs_spec (Args (fst (decodes_to half_decoded (Some type_error) ''ping''
        (TaskSignature [] [] [] [] False)))) = Inr []
   \<and> reflect_Call assignable ping_task [] = Inr (RV ''string'' (VStr ''pong''), RV ''error'' VNil)
   \<and> invocations (fst (processMessage (decodes_to half_decoded (Some type_error)) registry
        assignable ReflectArgs_spec \<lparr>Body = ''ping''\<rparr>)) = [(''ping'', [])]"
proof -
  have h0: "snd (decodes_to half_decoded (Some type_error) (Body \<lparr>Body = ''ping''\<rparr>)
      (TaskSignature [] [] [] [] False)) = Some type_error"
    by (simp add: decodes_to_def)
  have h1: "registry (Name (fst (decodes_to half_decoded (Some type_error)
      (Body \<lparr>Body = ''ping''\<rparr>) (TaskSignature [] [] [] [] False)))) = Some ping_task"
    by (simp add: registry_def decodes_to_def half_decoded_def)
  have h2: "ReflectArgs_spec (Args (fst (decodes_to half_decoded (Some type_error)
      (Body \<lparr>Body = ''ping''\<rparr>) (TaskSignature [] [] [] [] False)))) = Inr []"
    by (simp add: decodes_to_def half_decoded_def)
  have h3: "reflect_Call assignable ping_task [] =
      Inr (RV ''string'' (VStr ''pong''), RV ''error'' VNil)"
    by (simp add: reflect_Call_def ping_task_def)
  from decode_error_is_ignored [where dec = "decodes_to half_decoded (Some type_error)"
      and d = "\<lparr>Body = ''ping''\<rparr>" and reg = registry and rargs = ReflectArgs_spec
      and asg = assignable and derr = type_error and t = ping_task and args = "[]"
      and ?r0.0 = "RV ''string'' (VStr ''pong'')" and ?r1.0 = "RV ''error'' VNil", OF h0]
    h1 h2 h3
  have "invocations (fst (processMessage (decodes_to half_decoded (Some type_error)) registry
        assignable ReflectArgs_spec \<lparr>Body = ''ping''\<rparr>)) =
      [(Name (fst (decodes_to half_decoded (Some type_error) (Body \<lparr>Body = ''ping''\<rparr>)
          (TaskSignature [] [] [] [] False))), map payload [])]"
    by blast
  with h0 h1 h2 h3 show ?thesis
    by (simp add: decodes_to_def half_decoded_def)
qed

text \<open>
  The claim as stated (no invocation and no publish after a failed decode) fails: decoding
  returns an error and leaves the name \<open>ping\<close> and a success callback; the handler is
  invoked and the callback is published.
\<close>

theorem decode_failure_counterexample:
  "snd (decodes_to half_decoded (Some type_error) ''ping''
      (TaskSignature [] [] [] [] False)) = Some type_error
   \<and> processMessage (decodes_to half_decoded (Some type_error)) registry assignable
       ReflectArgs_spec \<lparr>Body = ''ping''\<rparr> =
       ([Log (Started ''ping''), Invoke ''ping'' [], Log (Finished ''ping''),
         Log (ResultIs (VStr ''pong'')),
         Publish (TaskSignature ''log'' [\<lparr>Type = ''string'', Value = VStr ''pong''\<rparr>]
           [] [] False)],
        Returned)"
  by (simp add: processMessage_def decodes_to_def half_decoded_def registry_def
      reflect_Call_def ping_task_def finalize_def resultArg_def log_sig_def)

section \<open>What finalize writes and what it shares\<close>





















end
